theory Spec2Isabelle
  imports
    Main
    "HOL-Library.Word"
    "HOL-Library.Log_Nat"
    "HOL-Library.Char_ord"
    "HOL-Library.List_Lexorder"
begin

section \<open>The myko server: write-back buffer, flush and query\<close>

text \<open>
  A shallow embedding of \<^verbatim>\<open>server/server.go\<close>: the aggregation key (\<open>key\<close>,
  \<open>parseKey\<close>), the batch writer (\<open>newBatchWriter\<close>, \<open>Write\<close>, \<open>flushIfNeeded\<close>) and
  \<open>Server.Query\<close>. Go mutates the writer and talks to Cassandra; here the writer and
  the table are passed in and returned, and everything the code reads from outside
  (the clock, the random identifiers, the results of the driver calls, the order in
  which \<^verbatim>\<open>range\<close> visits a map) is a field of an environment record.
\<close>

subsection \<open>float64\<close>

text \<open>
  \<^verbatim>\<open>pb.Event.Value\<close> is a Go \<^verbatim>\<open>float64\<close> and the code adds such values with \<^verbatim>\<open>+=\<close>.
  \<open>Finite s m e\<close> stands for \<open>(-1)^s * m * 2^e\<close>, with \<open>0 \<le> m\<close>. The values the operations below
  build are in the canonical form of IEEE 754 binary64: \<open>m < 2^53\<close>,
  \<open>-1074 \<le> e \<le> 971\<close>, and \<open>2^52 \<le> m\<close> unless \<open>e = -1074\<close> (zero and the subnormals).
  There is one \<open>NaN\<close>: payloads are not told apart.
\<close>

datatype float64 = Finite bool int int | Inf bool | NaN

text \<open>\<open>m / 2^k\<close> rounded to the nearest integer, a tie going to the even one.\<close>

definition roundEven :: "int \<Rightarrow> nat \<Rightarrow> int" where
  "roundEven m k =
     (let q = m div 2 ^ k; r = m mod 2 ^ k
      in if 2 ^ k < 2 * r \<or> (2 * r = 2 ^ k \<and> odd q) then q + 1 else q)"

text \<open>
  The binary64 value nearest to \<open>(-1)^s * m * 2^e\<close> (round to nearest, ties to even,
  overflow to infinity), for any \<open>m \<ge> 0\<close> and any \<open>e\<close>.
\<close>

definition mkFloat :: "bool \<Rightarrow> int \<Rightarrow> int \<Rightarrow> float64" where
  "mkFloat s m e =
     (if m = 0 then Finite s 0 (- 1074)
      else
        let e' = max (e + bitlen m - 53) (- 1074)
        in if e' \<le> e then
             (if 971 < e' then Inf s else Finite s (m * 2 ^ nat (e - e')) e')
           else
             let m' = roundEven m (nat (e' - e))
             in if m' = 2 ^ 53 then
                  (if 971 < e' + 1 then Inf s else Finite s (2 ^ 52) (e' + 1))
                else if 971 < e' then Inf s
                else Finite s m' e')"

definition signed :: "bool \<Rightarrow> int \<Rightarrow> int" where
  "signed s m = (if s then - m else m)"

text \<open>
  Go's \<^verbatim>\<open>x + y\<close> on \<^verbatim>\<open>float64\<close>: the exact sum, rounded. A sum that is exactly zero is
  \<open>+0\<close>, except that \<open>-0 + -0\<close> is \<open>-0\<close>.
\<close>

fun fadd :: "float64 \<Rightarrow> float64 \<Rightarrow> float64" where
  "fadd NaN y = NaN"
| "fadd (Inf s) NaN = NaN"
| "fadd (Finite s m e) NaN = NaN"
| "fadd (Inf s) (Inf t) = (if s = t then Inf s else NaN)"
| "fadd (Inf s) (Finite t n f) = Inf s"
| "fadd (Finite s m e) (Inf t) = Inf t"
| "fadd (Finite s m e) (Finite t n f) =
     (let g = min e f;
          x = signed s m * 2 ^ nat (e - g) + signed t n * 2 ^ nat (f - g)
      in if x = 0 then Finite (m = 0 \<and> n = 0 \<and> s \<and> t) 0 (- 1074)
         else mkFloat (x < 0) \<bar>x\<bar> g)"

text \<open>The conversion \<^verbatim>\<open>float64(i)\<close> of an integer, used to write the values of examples.\<close>

definition ofInt :: "int \<Rightarrow> float64" where
  "ofInt i = mkFloat (i < 0) \<bar>i\<bar> 0"

subsection \<open>Data\<close>

text \<open>\<^verbatim>\<open>pb.Event\<close> and \<^verbatim>\<open>pb.Entry\<close>. Go strings are byte strings, as \<open>string\<close> is.\<close>

record Event =
  Name :: string
  Value :: float64
  Unit :: string

record Entry =
  Origin :: string
  TraceId :: string
  Events :: "Event list"

text \<open>\<^verbatim>\<open>pb.QueryRequest\<close>; an empty field is an absent one.\<close>

record QueryRequest =
  reqTraceId :: string
  reqOrigin :: string
  reqEvent :: string

text \<open>\<^verbatim>\<open>cassandra.Filter\<close>.\<close>

record Filter =
  TraceID :: string
  fOrigin :: string
  fEvent :: string

text \<open>
  Instants are nanoseconds after Go's zero \<^verbatim>\<open>time.Time\<close> (1 January of year 1, UTC),
  on one time line: the wall clock and the monotonic clock are taken to agree.
  A \<^verbatim>\<open>time.Duration\<close> is an \<^verbatim>\<open>int64\<close> of nanoseconds.
\<close>

type_synonym time = int
type_synonym duration = "64 word"

definition Add :: "time \<Rightarrow> duration \<Rightarrow> time" where
  "Add t d = t + sint d"

definition Before :: "time \<Rightarrow> time \<Rightarrow> bool" where
  "Before t u = (t < u)"

text \<open>
  A row of the table \<^verbatim>\<open>events\<close>, with the columns of the \<^verbatim>\<open>INSERT\<close> of
  \<open>flushIfNeeded\<close>. The table is the list of its rows in the order a scan returns
  them. Rows do not expire here: the time to live of the \<^verbatim>\<open>INSERT\<close> is left out.
\<close>

record Row =
  row_id :: string
  row_trace_id :: string
  row_origin :: string
  row_event :: string
  row_value :: float64
  row_unit :: string
  row_created_at :: time

text \<open>
  What lies outside the writer: the table, and the lines \<open>flushIfNeeded\<close> has logged
  (\<^verbatim>\<open>"Batch writing %d records"\<close>, one number a line).
\<close>

record world =
  table :: "Row list"
  logged :: "nat list"

text \<open>
  An error a call returns, or the run-time panic of an index out of range
  (\<open>parseKey\<close> indexes the result of \<^verbatim>\<open>strings.Split\<close> without a check).
\<close>

datatype error = Err string | PanicIndexOutOfRange

subsection \<open>The aggregation key\<close>

definition key :: "string \<Rightarrow> string \<Rightarrow> string \<Rightarrow> string \<Rightarrow> string" where
  "key origin traceID name unit = origin @ '':'' @ traceID @ '':'' @ name @ '':'' @ unit"

text \<open>\<^verbatim>\<open>strings.Split(s, sep)\<close> for a separator of one byte.\<close>

fun Split :: "char \<Rightarrow> string \<Rightarrow> string list" where
  "Split sep [] = [[]]"
| "Split sep (c # cs) =
     (if c = sep then [] # Split sep cs
      else (case Split sep cs of [] \<Rightarrow> [[c]] | p # ps \<Rightarrow> (c # p) # ps))"

definition parseKey :: "string \<Rightarrow> error + string \<times> string \<times> string \<times> string" where
  "parseKey k =
     (case Split (CHR '':'') k of
        v0 # v1 # v2 # v3 # rest \<Rightarrow> Inr (v0, v1, v2, v3)
      | _ \<Rightarrow> Inl PanicIndexOutOfRange)"

subsection \<open>The batch writer\<close>

record batchWriter =
  events :: "string \<rightharpoonup> Event"
  lastExport :: time
  n :: int
  flushInterval :: duration

definition newBatchWriter :: "int \<Rightarrow> duration \<Rightarrow> batchWriter" where
  "newBatchWriter cap interval =
     \<lparr>events = Map.empty, lastExport = 0, n = cap, flushInterval = interval\<rparr>"

text \<open>
  The loop of \<open>Write\<close>. The code stores the pointer to the first event of a key and
  adds to the event it points to; the events of an entry are taken to be separate
  objects, as a decoded request has them, so the map holds values.
\<close>

fun mergeEvents :: "string \<Rightarrow> string \<Rightarrow> (string \<rightharpoonup> Event) \<Rightarrow> Event list \<Rightarrow> (string \<rightharpoonup> Event)" where
  "mergeEvents origin traceId m [] = m"
| "mergeEvents origin traceId m (event # rest) =
     (let k = key origin traceId (Name event) (Unit event)
      in case m k of
           None \<Rightarrow> mergeEvents origin traceId (m(k \<mapsto> event)) rest
         | Some v \<Rightarrow>
             mergeEvents origin traceId
               (m(k \<mapsto> v\<lparr>Value := fadd (Value v) (Value event)\<rparr>)) rest)"

text \<open>
  What one call of \<open>flushIfNeeded\<close> reads from outside. The calls made once for each
  key are indexed by the number of the iteration.
\<close>

record flushEnv =
  nowCheck :: time
  rangeOrder :: "string list"
  RandomUUID :: "nat \<Rightarrow> error + string"
  batchQuery :: "nat \<Rightarrow> error option"
  nowRow :: "nat \<Rightarrow> time"
  ExecuteBatch :: "error option"
  appliedOnFailure :: "Row \<Rightarrow> bool"
  nowDone :: time

text \<open>
  \<^verbatim>\<open>for k, e := range m\<close> visits every key of the map once, in an order the run time
  chooses: the environment gives the order, and \<open>rangeOrderOf\<close> says that it is one.
\<close>

definition rangeMap :: "string list \<Rightarrow> (string \<rightharpoonup> 'a) \<Rightarrow> (string \<times> 'a) list" where
  "rangeMap ks m = List.map_filter (\<lambda>k. map_option (Pair k) (m k)) ks"


definition len :: "(string \<rightharpoonup> 'a) \<Rightarrow> int" where
  "len m = int (card (dom m))"

text \<open>The condition of the \<^verbatim>\<open>if\<close> of \<open>flushIfNeeded\<close>.\<close>

definition flushDue :: "batchWriter \<Rightarrow> time \<Rightarrow> bool" where
  "flushDue b now =
     (n b < len (events b) \<or> Before (lastExport b) (Add now (- 1 * flushInterval b)))"

text \<open>The loop that fills the batch; it returns at the first error.\<close>

fun buildBatch :: "flushEnv \<Rightarrow> nat \<Rightarrow> (string \<times> Event) list \<Rightarrow> Row list \<Rightarrow> error + Row list" where
  "buildBatch env i [] batch = Inr batch"
| "buildBatch env i ((k, e) # rest) batch =
     (case parseKey k of
        Inl p \<Rightarrow> Inl p
      | Inr (origin, traceID, name, unit) \<Rightarrow>
          (case RandomUUID env i of
             Inl err \<Rightarrow> Inl err
           | Inr uuid \<Rightarrow>
               (case batchQuery env i of
                  Some err \<Rightarrow> Inl err
                | None \<Rightarrow>
                    buildBatch env (Suc i) rest
                      (batch @ [\<lparr>row_id = uuid, row_trace_id = traceID, row_origin = origin,
                                  row_event = name, row_value = Value e, row_unit = unit,
                                  row_created_at = nowRow env i\<rparr>]))))"

text \<open>
  The body of the \<^verbatim>\<open>if\<close>. An unlogged batch that fails may have written some of its
  rows: the environment says which.
\<close>

definition flush :: "flushEnv \<Rightarrow> batchWriter \<Rightarrow> world \<Rightarrow> error option \<times> batchWriter \<times> world" where
  "flush env b w =
     (let w1 = w\<lparr>logged := logged w @ [card (dom (events b))]\<rparr>
      in case buildBatch env 0 (rangeMap (rangeOrder env) (events b)) [] of
           Inl err \<Rightarrow> (Some err, b, w1)
         | Inr batch \<Rightarrow>
             (case ExecuteBatch env of
                Some err \<Rightarrow>
                  (Some err, b, w1\<lparr>table := table w1 @ filter (appliedOnFailure env) batch\<rparr>)
              | None \<Rightarrow>
                  (None, b\<lparr>events := Map.empty, lastExport := nowDone env\<rparr>,
                   w1\<lparr>table := table w1 @ batch\<rparr>)))"

definition flushIfNeeded :: "flushEnv \<Rightarrow> batchWriter \<Rightarrow> world \<Rightarrow> error option \<times> batchWriter \<times> world" where
  "flushIfNeeded env b w = (if flushDue b (nowCheck env) then flush env b w else (None, b, w))"

text \<open>The writer after the loop of \<open>Write\<close>, before \<open>flushIfNeeded\<close> is called.\<close>

definition mergeEntry :: "batchWriter \<Rightarrow> Entry \<Rightarrow> batchWriter" where
  "mergeEntry b e = b\<lparr>events := mergeEvents (Origin e) (TraceId e) (events b) (Events e)\<rparr>"

definition Write :: "flushEnv \<Rightarrow> batchWriter \<Rightarrow> world \<Rightarrow> Entry \<Rightarrow> error option \<times> batchWriter \<times> world" where
  "Write env b w e = flushIfNeeded env (mergeEntry b e) w"

subsection \<open>Query\<close>

text \<open>
  Modelled from the spec: \<^verbatim>\<open>cassandra.Filter.CQL\<close> is not among the sources. The spec
  has the filter as \<open>{traceId?, origin?, eventName?}\<close>, every field optional: a row
  matches when each field that is present equals the row's column.
\<close>

definition matches :: "Filter \<Rightarrow> Row \<Rightarrow> bool" where
  "matches f r =
     ((TraceID f = [] \<or> row_trace_id r = TraceID f) \<and>
      (fOrigin f = [] \<or> row_origin r = fOrigin f) \<and>
      (fEvent f = [] \<or> row_event r = fEvent f))"

text \<open>
  What one call of \<open>Query\<close> reads from outside: the result of \<^verbatim>\<open>filter.CQL()\<close>, the
  result of \<^verbatim>\<open>session.Query\<close>, the failure of the iterator if there is one
  (\<open>Some (k, err)\<close>: \<^verbatim>\<open>Scan\<close> returns false after \<open>k\<close> rows because of \<open>err\<close>, which the
  iterator keeps for \<^verbatim>\<open>Close\<close>), and the order of the \<^verbatim>\<open>range\<close> over the map \<open>v\<close>.
\<close>

record queryEnv =
  cqlErr :: "error option"
  sessionQueryErr :: "error option"
  scanFailure :: "(nat \<times> error) option"
  resultOrder :: "string list"

text \<open>The rows \<^verbatim>\<open>q.Iter().Scan\<close> delivers before it returns false.\<close>

definition scan :: "queryEnv \<Rightarrow> Filter \<Rightarrow> Row list \<Rightarrow> Row list" where
  "scan env f rows =
     (case scanFailure env of
        None \<Rightarrow> filter (matches f) rows
      | Some (k, err) \<Rightarrow> take k (filter (matches f) rows))"

text \<open>The body of the scan loop: the key is built from the request and the row's name and unit.\<close>

definition aggregate :: "QueryRequest \<Rightarrow> (string \<rightharpoonup> Event) \<Rightarrow> Row \<Rightarrow> (string \<rightharpoonup> Event)" where
  "aggregate req v r =
     (let k = key (reqTraceId req) (reqOrigin req) (row_event r) (row_unit r)
      in case v k of
           Some event \<Rightarrow> v(k \<mapsto> event\<lparr>Value := fadd (Value event) (row_value r)\<rparr>)
         | None \<Rightarrow> v(k \<mapsto> \<lparr>Name = row_event r, Value = row_value r, Unit = row_unit r\<rparr>))"

text \<open>
  \<^verbatim>\<open>sort.Sort\<close> with \<open>eventSorter.Less\<close>, which compares the names as byte strings.
  \<^verbatim>\<open>sort.Sort\<close> is not stable; the insertion sort here is, and the events of equal
  names come out in any order all the same, since \<open>resultOrder\<close> is any order.
\<close>

definition sortEvents :: "Event list \<Rightarrow> Event list" where
  "sortEvents evs = sort_key Name evs"

definition Query :: "queryEnv \<Rightarrow> world \<Rightarrow> QueryRequest \<Rightarrow> error + Event list" where
  "Query env w req =
     (let f = \<lparr>TraceID = reqTraceId req, fOrigin = reqOrigin req, fEvent = reqEvent req\<rparr>
      in case cqlErr env of
           Some err \<Rightarrow> Inl err
         | None \<Rightarrow>
             (case sessionQueryErr env of
                Some err \<Rightarrow> Inl err
              | None \<Rightarrow>
                  (let v = foldl (aggregate req) Map.empty (scan env f (table w));
                       evs = map snd (rangeMap (resultOrder env) v)
                   in Inr (sortEvents evs))))"

subsection \<open>Inputs of the examples\<close>

text \<open>
  The instant of 1 January 1970 (UTC) on the time line: 62135596800 seconds after the
  zero time. A clock read by \<^verbatim>\<open>time.Now()\<close> is taken not to show an earlier instant.
\<close>

definition unixEpoch :: time where
  "unixEpoch = 62135596800 * 1000000000"

text \<open>
  An environment in which every call of a flush succeeds: the clock shows \<open>now\<close>,
  \<^verbatim>\<open>range\<close> visits the keys in the order \<open>ks\<close>, and the \<open>i\<close>-th identifier is \<open>i + 1\<close>
  letters \<open>u\<close>.
\<close>

definition calmEnv :: "time \<Rightarrow> string list \<Rightarrow> flushEnv" where
  "calmEnv now ks =
     \<lparr>nowCheck = now, rangeOrder = ks,
      RandomUUID = (\<lambda>i. Inr (replicate (Suc i) (CHR ''u''))),
      batchQuery = (\<lambda>i. None), nowRow = (\<lambda>i. now), ExecuteBatch = None,
      appliedOnFailure = (\<lambda>r. False), nowDone = now + 1\<rparr>"

text \<open>An environment in which a query meets no failure.\<close>

definition calmQuery :: "string list \<Rightarrow> queryEnv" where
  "calmQuery ks =
     \<lparr>cqlErr = None, sessionQueryErr = None, scanFailure = None, resultOrder = ks\<rparr>"

definition emptyWorld :: world where
  "emptyWorld = \<lparr>table = [], logged = []\<rparr>"

text \<open>An entry of one event, and an empty writer of capacity 10 and interval 100 ns that flushed last at \<open>t\<close>.\<close>

definition oneCpu :: Entry where
  "oneCpu = \<lparr>Origin = ''o'', TraceId = ''t'',
     Events = [\<lparr>Name = ''cpu'', Value = ofInt 1, Unit = ''pct''\<rparr>]\<rparr>"

definition writerAt :: "time \<Rightarrow> batchWriter" where
  "writerAt t = \<lparr>events = Map.empty, lastExport = t, n = 10, flushInterval = 100\<rparr>"


definition threeNames :: Entry where
  "threeNames = \<lparr>Origin = ''o'', TraceId = ''t'',
     Events = [\<lparr>Name = ''zz'', Value = ofInt 1, Unit = ''u''\<rparr>,
               \<lparr>Name = ''aa'', Value = ofInt 1, Unit = ''u''\<rparr>,
               \<lparr>Name = ''mm'', Value = ofInt 1, Unit = ''u''\<rparr>]\<rparr>"

definition traceOrigin :: QueryRequest where
  "traceOrigin = \<lparr>reqTraceId = ''t'', reqOrigin = ''o'', reqEvent = []\<rparr>"

definition cpuRow :: "string \<Rightarrow> string \<Rightarrow> int \<Rightarrow> Row" where
  "cpuRow uuid origin v =
     \<lparr>row_id = uuid, row_trace_id = ''t'', row_origin = origin, row_event = ''cpu'',
      row_value = ofInt v, row_unit = ''pct'', row_created_at = unixEpoch\<rparr>"

section \<open>Properties\<close>

text \<open>The definitions that a run of \<open>Write\<close> on an example unfolds.\<close>

lemmas run_defs =
  Write_def flushIfNeeded_def flushDue_def flush_def mergeEntry_def key_def len_def
  Add_def Before_def rangeMap_def parseKey_def
  calmEnv_def emptyWorld_def unixEpoch_def oneCpu_def writerAt_def newBatchWriter_def

lemmas query_defs =
  Query_def scan_def aggregate_def matches_def sortEvents_def rangeMap_def key_def
  calmQuery_def traceOrigin_def cpuRow_def

lemma one_plus_two: "fadd (ofInt 1) (ofInt 2) = ofInt 3"
  by code_simp

subsection \<open>The aggregation key\<close>

lemma Split_not_Nil: "Split sep s \<noteq> []"
  by (induction s) (auto split: list.splits)

lemma hd_Split: "hd (Split sep s) = takeWhile (\<lambda>c. c \<noteq> sep) s"
  by (induction s) (auto split: list.splits simp: Split_not_Nil)

lemma Split_append_sep:
  "sep \<notin> set a \<Longrightarrow> Split sep (a @ sep # rest) = a # Split sep rest"
  by (induction a) (auto split: list.splits)

lemma Split_no_sep: "sep \<notin> set a \<Longrightarrow> Split sep a = [a]"
  by (induction a) (auto split: list.splits)

lemma Split_head_eq:
  assumes "Split sep (a @ sep # rest) = a # vs"
  shows "sep \<notin> set a"
proof -
  have "takeWhile (\<lambda>c. c \<noteq> sep) (a @ sep # rest) = a"
    using assms hd_Split [of sep "a @ sep # rest"] by simp
  then show ?thesis
    by (metis (mono_tags, lifting) set_takeWhileD)
qed

lemma Split_last_eq:
  assumes "Split sep a = a # vs"
  shows "sep \<notin> set a"
proof -
  have "takeWhile (\<lambda>c. c \<noteq> sep) a = a"
    using assms hd_Split [of sep a] by simp
  then show ?thesis
    by (metis (mono_tags, lifting) set_takeWhileD)
qed

lemma parseKey_Inr:
  "parseKey k = Inr (a, b, c, d) \<longleftrightarrow> (\<exists>rest. Split (CHR '':'') k = a # b # c # d # rest)"
  by (auto simp: parseKey_def split: list.splits)

lemma parseKey_key:
  "CHR '':'' \<notin> set origin \<union> set traceID \<union> set name \<union> set unit \<Longrightarrow>
   parseKey (key origin traceID name unit) = Inr (origin, traceID, name, unit)"
  by (simp add: parseKey_Inr key_def Split_append_sep Split_no_sep)

text \<open>
  Claim C2, as the code has it. \<open>parseKey\<close> splits at every separator and \<open>key\<close>
  escapes nothing, so the round trip holds for the tuples without a separator and
  for no other tuple: \<open>parseKey (key origin traceID name unit)\<close> gives back the four
  fields exactly when none of them contains the byte \<open>:\<close>.
\<close>

theorem parseKey_key_roundtrip:
  "parseKey (key origin traceID name unit) = Inr (origin, traceID, name, unit) \<longleftrightarrow>
     CHR '':'' \<notin> set origin \<union> set traceID \<union> set name \<union> set unit"
proof
  assume "CHR '':'' \<notin> set origin \<union> set traceID \<union> set name \<union> set unit"
  then show "parseKey (key origin traceID name unit) = Inr (origin, traceID, name, unit)"
    by (rule parseKey_key)
next
  assume "parseKey (key origin traceID name unit) = Inr (origin, traceID, name, unit)"
  then obtain rest where
    s0: "Split (CHR '':'') (origin @ CHR '':'' # traceID @ CHR '':'' # name @ CHR '':'' # unit)
           = origin # traceID # name # unit # rest"
    by (auto simp: parseKey_Inr key_def)
  have o: "CHR '':'' \<notin> set origin"
    using s0 by (rule Split_head_eq)
  with s0 have s1: "Split (CHR '':'') (traceID @ CHR '':'' # name @ CHR '':'' # unit)
           = traceID # name # unit # rest"
    by (simp add: Split_append_sep)
  have t: "CHR '':'' \<notin> set traceID"
    using s1 by (rule Split_head_eq)
  with s1 have s2: "Split (CHR '':'') (name @ CHR '':'' # unit) = name # unit # rest"
    by (simp add: Split_append_sep)
  have n: "CHR '':'' \<notin> set name"
    using s2 by (rule Split_head_eq)
  with s2 have s3: "Split (CHR '':'') unit = unit # rest"
    by (simp add: Split_append_sep)
  have u: "CHR '':'' \<notin> set unit"
    using s3 by (rule Split_last_eq)
  from o t n u show "CHR '':'' \<notin> set origin \<union> set traceID \<union> set name \<union> set unit"
    by simp
qed

theorem parseKey_key_roundtrip_witness:
  "parseKey (key ''o'' ''t'' ''cpu'' ''pct'') = Inr (''o'', ''t'', ''cpu'', ''pct'')"
  using parseKey_key_roundtrip [of "''o''" "''t''" "''cpu''" "''pct''"] by simp

text \<open>
  The claim as the specification states it fails where a field holds the separator:
  the origin \<open>a:b\<close> comes back as the origin \<open>a\<close> and the trace \<open>b\<close>.
\<close>

theorem parseKey_key_separator_counterexample:
  "parseKey (key ''a:b'' ''c'' ''d'' ''e'') = Inr (''a'', ''b'', ''c'', ''d'') \<and>
   parseKey (key ''a:b'' ''c'' ''d'' ''e'') \<noteq> Inr (''a:b'', ''c'', ''d'', ''e'')"
  by (simp add: parseKey_def key_def)

subsection \<open>The flush trigger\<close>

lemma sint_neg64:
  fixes d :: "64 word"
  assumes "- (2 ^ 63) < sint d"
  shows "sint (- 1 * d) = - sint d"
proof -
  have "sint d < 2 ^ 63"
    using sint_lt [of d] by simp
  with assms have "- (2 ^ 63) \<le> - sint d" "- sint d < 2 ^ 63"
    by simp_all
  then have "signed_take_bit 63 (- sint d) = - sint d"
    by (simp add: signed_take_bit_int_eq_self_iff)
  then show ?thesis
    by (simp add: sint_word_minus)
qed

lemma flushDue_iff:
  assumes "- (2 ^ 63) < sint (flushInterval b)"
  shows "flushDue b now \<longleftrightarrow>
           n b < len (events b) \<or> sint (flushInterval b) < now - lastExport b"
  using sint_neg64 [OF assms] by (auto simp: flushDue_def Before_def Add_def)

lemma logged_flush:
  "logged (snd (snd (flush env b w))) = logged w @ [card (dom (events b))]"
  by (simp add: flush_def Let_def split: sum.splits option.splits)

lemma mergeEntry_fields [simp]:
  "lastExport (mergeEntry b e) = lastExport b"
  "n (mergeEntry b e) = n b"
  "flushInterval (mergeEntry b e) = flushInterval b"
  by (simp_all add: mergeEntry_def)

text \<open>
  Claim C5, as the code has it. \<^verbatim>\<open>lastExport.Before(now.Add(-1*flushInterval))\<close> is a
  strict comparison: for every interval but the least \<^verbatim>\<open>int64\<close> (whose negation wraps),
  a write flushes exactly when, after the merge, \<open>len(buffer) > n\<close> or
  \<open>now - lastExport > flushInterval\<close>. A flush logs one line; when neither condition
  holds the call returns no error, logs nothing, and leaves the merged buffer, the
  time of the last export and the table as they are.
\<close>

theorem flush_trigger:
  assumes "- (2 ^ 63) < sint (flushInterval b)"
  shows "(flushDue (mergeEntry b e) (nowCheck env) \<longleftrightarrow>
            n b < len (events (mergeEntry b e)) \<or>
            sint (flushInterval b) < nowCheck env - lastExport b) \<and>
         (if flushDue (mergeEntry b e) (nowCheck env)
          then Write env b w e = flush env (mergeEntry b e) w \<and>
               logged (snd (snd (Write env b w e))) =
                 logged w @ [card (dom (events (mergeEntry b e)))]
          else Write env b w e = (None, mergeEntry b e, w))"
  using flushDue_iff [of "mergeEntry b e" "nowCheck env"] assms
  by (simp add: Write_def flushIfNeeded_def logged_flush)

theorem flush_trigger_witness:
  "flushDue (mergeEntry (writerAt unixEpoch) oneCpu) (unixEpoch + 101) \<and>
   logged (snd (snd (Write (calmEnv (unixEpoch + 101) [''o:t:cpu:pct''])
      (writerAt unixEpoch) emptyWorld oneCpu))) = [1] \<and>
   \<not> flushDue (mergeEntry (writerAt unixEpoch) oneCpu) (unixEpoch + 100) \<and>
   Write (calmEnv (unixEpoch + 100) [''o:t:cpu:pct'']) (writerAt unixEpoch) emptyWorld oneCpu =
      (None, mergeEntry (writerAt unixEpoch) oneCpu, emptyWorld)"
  using
    flush_trigger [of "writerAt unixEpoch" oneCpu
      "calmEnv (unixEpoch + 101) [''o:t:cpu:pct'']" emptyWorld]
    flush_trigger [of "writerAt unixEpoch" oneCpu
      "calmEnv (unixEpoch + 100) [''o:t:cpu:pct'']" emptyWorld]
  by (simp add: run_defs)

text \<open>
  The claim as the specification states it, with \<open>now - lastExport \<ge> flushInterval\<close>,
  fails on the boundary: 100 ns after the last export, with an interval of 100 ns and
  one key in a buffer of capacity 10, the write does not flush.
\<close>

theorem flush_trigger_boundary_counterexample:
  "sint (flushInterval (writerAt unixEpoch)) \<le>
     (unixEpoch + 100) - lastExport (writerAt unixEpoch) \<and>
   Write (calmEnv (unixEpoch + 100) [''o:t:cpu:pct'']) (writerAt unixEpoch) emptyWorld oneCpu =
     (None, mergeEntry (writerAt unixEpoch) oneCpu, emptyWorld) \<and>
   logged (snd (snd (Write (calmEnv (unixEpoch + 100) [''o:t:cpu:pct''])
      (writerAt unixEpoch) emptyWorld oneCpu))) = []"
  by (simp add: run_defs)

text \<open>
  Claim C10. A writer from \<open>newBatchWriter\<close> has the zero time as \<open>lastExport\<close>. With a
  clock that does not show an instant before 1970, the first write takes the flush
  branch and logs its line, for every capacity and every interval (a duration is
  less than 2^63 ns, that is 293 years).
\<close>

theorem first_write_flushes:
  assumes "unixEpoch \<le> nowCheck env"
  shows "flushDue (mergeEntry (newBatchWriter cap interval) e) (nowCheck env) \<and>
         Write env (newBatchWriter cap interval) w e =
           flush env (mergeEntry (newBatchWriter cap interval) e) w \<and>
         logged (snd (snd (Write env (newBatchWriter cap interval) w e))) =
           logged w @ [card (dom (events (mergeEntry (newBatchWriter cap interval) e)))]"
proof -
  have "- (2 ^ 63) \<le> sint (- 1 * interval)"
    using sint_ge [of "- 1 * interval"] by simp
  with assms have "0 < nowCheck env + sint (- 1 * interval)"
    by (simp add: unixEpoch_def)
  then have due: "flushDue (mergeEntry (newBatchWriter cap interval) e) (nowCheck env)"
    by (simp add: flushDue_def Before_def Add_def newBatchWriter_def mergeEntry_def)
  then show ?thesis
    by (simp add: Write_def flushIfNeeded_def logged_flush)
qed

theorem first_write_flushes_witness:
  "unixEpoch \<le> nowCheck (calmEnv (unixEpoch + 5) [''o:t:cpu:pct'']) \<and>
   Write (calmEnv (unixEpoch + 5) [''o:t:cpu:pct'']) (newBatchWriter 1000 3600000000000)
       emptyWorld oneCpu =
     (None,
      \<lparr>events = Map.empty, lastExport = unixEpoch + 6, n = 1000,
       flushInterval = 3600000000000\<rparr>,
      \<lparr>table = [\<lparr>row_id = ''u'', row_trace_id = ''t'', row_origin = ''o'', row_event = ''cpu'',
                 row_value = ofInt 1, row_unit = ''pct'', row_created_at = unixEpoch + 5\<rparr>],
       logged = [1]\<rparr>)"
  using first_write_flushes [of "calmEnv (unixEpoch + 5) [''o:t:cpu:pct'']" 1000
     3600000000000 oneCpu emptyWorld]
  by (simp add: run_defs)

subsection \<open>The state after a flush\<close>

text \<open>
  Claim C7. When the flush of a write is due and the write returns no error, the
  buffer of the writer it leaves is the empty map, of length 0, and \<open>lastExport\<close> is
  the instant \<^verbatim>\<open>time.Now()\<close> showed after \<^verbatim>\<open>ExecuteBatch\<close> returned.
\<close>

theorem flush_success_state:
  assumes "flushDue (mergeEntry b e) (nowCheck env)"
      and "Write env b w e = (None, b', w')"
  shows "events b' = Map.empty \<and> len (events b') = 0 \<and> lastExport b' = nowDone env"
  using assms
  by (auto simp: Write_def flushIfNeeded_def flush_def len_def Let_def
           split: sum.splits option.splits)

theorem flush_success_state_witness:
  "flushDue (mergeEntry (writerAt unixEpoch) oneCpu) (unixEpoch + 101) \<and>
   fst (Write (calmEnv (unixEpoch + 101) [''o:t:cpu:pct'']) (writerAt unixEpoch)
       emptyWorld oneCpu) = None \<and>
   events (fst (snd (Write (calmEnv (unixEpoch + 101) [''o:t:cpu:pct''])
       (writerAt unixEpoch) emptyWorld oneCpu))) = Map.empty \<and>
   lastExport (fst (snd (Write (calmEnv (unixEpoch + 101) [''o:t:cpu:pct''])
       (writerAt unixEpoch) emptyWorld oneCpu))) = unixEpoch + 102"
  using flush_success_state [of "writerAt unixEpoch" oneCpu
     "calmEnv (unixEpoch + 101) [''o:t:cpu:pct'']" emptyWorld
     "fst (snd (Write (calmEnv (unixEpoch + 101) [''o:t:cpu:pct'']) (writerAt unixEpoch)
        emptyWorld oneCpu))"
     "snd (snd (Write (calmEnv (unixEpoch + 101) [''o:t:cpu:pct'']) (writerAt unixEpoch)
        emptyWorld oneCpu))"]
  by (simp add: run_defs)

subsection \<open>A flush that fails\<close>




subsection \<open>Query: order of the result\<close>

text \<open>
  Claim C8. Whatever the request, the table and the environment, a result that
  \<open>Query\<close> returns is sorted ascending by event name, the names compared as byte
  strings. The witness writes the names \<open>zz\<close>, \<open>aa\<close>, \<open>mm\<close> with a first write, which
  flushes, and queries: the result is ordered \<open>aa\<close>, \<open>mm\<close>, \<open>zz\<close>.
\<close>

theorem query_sorted_by_name:
  assumes "Query env w req = Inr evs"
  shows "sorted (map Name evs)"
  using assms
  by (auto simp: Query_def sortEvents_def Let_def split: option.splits)

theorem query_sorted_by_name_witness:
  "Query (calmQuery [''t:o:zz:u'', ''t:o:aa:u'', ''t:o:mm:u''])
     (snd (snd (Write (calmEnv unixEpoch [''o:t:zz:u'', ''o:t:aa:u'', ''o:t:mm:u''])
        (newBatchWriter 10 100) emptyWorld threeNames)))
     traceOrigin =
     Inr [\<lparr>Name = ''aa'', Value = ofInt 1, Unit = ''u''\<rparr>,
          \<lparr>Name = ''mm'', Value = ofInt 1, Unit = ''u''\<rparr>,
          \<lparr>Name = ''zz'', Value = ofInt 1, Unit = ''u''\<rparr>] \<and>
   sorted [''aa'', ''mm'', ''zz'']"
  using query_sorted_by_name [of "calmQuery [''t:o:zz:u'', ''t:o:aa:u'', ''t:o:mm:u'']"
     "snd (snd (Write (calmEnv unixEpoch [''o:t:zz:u'', ''o:t:aa:u'', ''o:t:mm:u''])
        (newBatchWriter 10 100) emptyWorld threeNames))"
     traceOrigin
     "[\<lparr>Name = ''aa'', Value = ofInt 1, Unit = ''u''\<rparr>,
       \<lparr>Name = ''mm'', Value = ofInt 1, Unit = ''u''\<rparr>,
       \<lparr>Name = ''zz'', Value = ofInt 1, Unit = ''u''\<rparr>]"]
  by (simp add: run_defs query_defs threeNames_def less_char_def less_eq_char_def)

subsection \<open>Query: failures\<close>

text \<open>The two failures that \<open>Query\<close> checks are returned, with no result.\<close>

lemma query_filter_error: "cqlErr env = Some err \<Longrightarrow> Query env w req = Inl err"
  by (simp add: Query_def)

lemma query_session_error:
  "cqlErr env = None \<Longrightarrow> sessionQueryErr env = Some err \<Longrightarrow> Query env w req = Inl err"
  by (simp add: Query_def)

text \<open>
  Claim C9 fails on the code for a scan that fails. The loop runs while \<^verbatim>\<open>Scan\<close>
  returns true, and \<^verbatim>\<open>Scan\<close> returns false at the end of the rows and on an error
  alike; \<open>Query\<close> never asks the iterator for its error. With two stored rows of one
  key and a scan that fails after the first, \<open>Query\<close> returns no error and the
  aggregate of the first row alone, 1, where the whole scan gives 3.
\<close>

theorem query_scan_failure_partial:
  "Query \<lparr>cqlErr = None, sessionQueryErr = None, scanFailure = Some (1, Err ''timeout''),
          resultOrder = [''t:o:cpu:pct'']\<rparr>
     \<lparr>table = [cpuRow ''u'' ''o'' 1, cpuRow ''uu'' ''o'' 2], logged = []\<rparr> traceOrigin =
     Inr [\<lparr>Name = ''cpu'', Value = ofInt 1, Unit = ''pct''\<rparr>] \<and>
   Query (calmQuery [''t:o:cpu:pct''])
     \<lparr>table = [cpuRow ''u'' ''o'' 1, cpuRow ''uu'' ''o'' 2], logged = []\<rparr> traceOrigin =
     Inr [\<lparr>Name = ''cpu'', Value = ofInt 3, Unit = ''pct''\<rparr>]"
  by (simp add: query_defs one_plus_two)

subsection \<open>Write, flush, query\<close>




subsection \<open>Query: the grouping key\<close>









end
